theory Spec2Isabelle
  imports Complex_Main "HOL-Library.Word"
begin

section \<open>The annotation canvas: class \<open>ImageLabel\<close>\<close>

text \<open>
  The program is a single Python file, \<open>tomoseg_gui.py\<close>, with two classes:
  \<open>ImageLabel\<close> (the canvas holding the two point lists) and \<open>MainWindow\<close>
  (file loading, slice display, saving). Each method becomes a function on a record
  of the object's attributes. Qt and NumPy calls are modelled by what their
  documentation says they return; painting and window chrome, which change no
  attribute, are left out.
\<close>

subsection \<open>Qt value types\<close>

text \<open>
  \<open>QPoint\<close> and \<open>QSize\<close> hold C \<open>int\<close> coordinates. Widget coordinates are far
  from the 32-bit limits, so they are mathematical integers here.
\<close>

record QPoint =
  px :: int
  py :: int

record QSize =
  sz_width :: int
  sz_height :: int

text \<open>\<open>QPoint.__sub__\<close> and \<open>QPoint.manhattanLength\<close>.\<close>

definition qpoint_sub :: "QPoint \<Rightarrow> QPoint \<Rightarrow> QPoint" where
  "qpoint_sub a b = \<lparr>px = px a - px b, py = py a - py b\<rparr>"

definition manhattanLength :: "QPoint \<Rightarrow> int" where
  "manhattanLength p = \<bar>px p\<bar> + \<bar>py p\<bar>"

text \<open>
  The truth value of a \<open>QSize\<close> in \<open>if max_size:\<close> is PyQt's \<open>QSize.__bool__\<close>,
  which answers \<open>isValid()\<close>: both sides non-negative.
\<close>

definition qsize_bool :: "QSize \<Rightarrow> bool" where
  "qsize_bool s = (0 \<le> sz_width s \<and> 0 \<le> sz_height s)"

subsection \<open>Rasters\<close>

text \<open>
  A byte of the 8-bit raster. Converting a floating-point value to \<open>uint8\<close> is a C
  conversion: it truncates toward zero, and it is undefined when the truncated value
  does not fit the type or the value is not finite. \<open>PxUndefined\<close> stands for such a
  byte, whose content the platform decides.
\<close>

datatype pixel = Px "8 word" | PxUndefined

record QImage =
  img_data :: "pixel list list"
  img_width :: nat
  img_height :: nat
  img_bytesPerLine :: nat

text \<open>
  A pixmap is kept as the expression that built it: the empty \<open>QPixmap()\<close>, a file
  read by \<open>QPixmap(path)\<close>, \<open>QPixmap.fromImage(image)\<close>, or
  \<open>pixmap.scaled(size, Qt.KeepAspectRatio, Qt.SmoothTransformation)\<close>.
\<close>

datatype QPixmap =
    NullPixmap
  | PixmapOfFile string
  | PixmapFromImage QImage
  | PixmapScaled QSize QPixmap

subsection \<open>The canvas state\<close>

record ImageLabel =
  points_foreground :: "QPoint list"
  points_background :: "QPoint list"
  current_mode :: string
  image :: QPixmap
  point_size :: int

text \<open>\<open>ImageLabel.__init__\<close> (lines 13-20).\<close>

definition ImageLabel_init :: ImageLabel where
  "ImageLabel_init =
     \<lparr>points_foreground = [], points_background = [],
      current_mode = ''foreground'', image = NullPixmap, point_size = 5\<rparr>"

text \<open>\<open>ImageLabel.set_image\<close> (lines 22-29).\<close>

definition set_image :: "string \<Rightarrow> QSize option \<Rightarrow> ImageLabel \<Rightarrow> ImageLabel" where
  "set_image image_path max_size lbl =
     (let img0 = PixmapOfFile image_path;
          img1 = (case max_size of
                    None \<Rightarrow> img0
                  | Some ms \<Rightarrow> if qsize_bool ms then PixmapScaled ms img0 else img0)
      in lbl\<lparr>image := img1, points_foreground := [], points_background := []\<rparr>)"

text \<open>\<open>ImageLabel.set_mrc_image\<close> (lines 31-38).\<close>

definition set_mrc_image :: "QPixmap \<Rightarrow> QSize option \<Rightarrow> ImageLabel \<Rightarrow> ImageLabel" where
  "set_mrc_image pixmap max_size lbl =
     (let pixmap1 = (case max_size of
                       None \<Rightarrow> pixmap
                     | Some ms \<Rightarrow> if qsize_bool ms then PixmapScaled ms pixmap else pixmap)
      in lbl\<lparr>image := pixmap1, points_foreground := [], points_background := []\<rparr>)"

text \<open>
  \<open>ImageLabel.remove_point\<close> (lines 65-71). The inner loop stops at the first point
  of the list within the radius; \<open>list.remove(point)\<close> deletes the first element equal
  to it. The foreground list is scanned first, and the method returns after one removal.
\<close>

definition in_radius :: "int \<Rightarrow> QPoint \<Rightarrow> QPoint \<Rightarrow> bool" where
  "in_radius radius pos point = (manhattanLength (qpoint_sub point pos) \<le> radius)"

definition remove_point :: "QPoint \<Rightarrow> ImageLabel \<Rightarrow> ImageLabel" where
  "remove_point pos lbl =
     (let radius = point_size lbl + 2 in
      case find (in_radius radius pos) (points_foreground lbl) of
        Some point \<Rightarrow> lbl\<lparr>points_foreground := remove1 point (points_foreground lbl)\<rparr>
      | None \<Rightarrow>
         (case find (in_radius radius pos) (points_background lbl) of
            Some point \<Rightarrow> lbl\<lparr>points_background := remove1 point (points_background lbl)\<rparr>
          | None \<Rightarrow> lbl))"

text \<open>\<open>ImageLabel.mousePressEvent\<close> (lines 54-63); \<open>self.update()\<close> only repaints.\<close>

datatype MouseButton = LeftButton | RightButton | OtherButton

definition mousePressEvent :: "MouseButton \<Rightarrow> QPoint \<Rightarrow> ImageLabel \<Rightarrow> ImageLabel" where
  "mousePressEvent button pos lbl =
     (if button = LeftButton then
        (if current_mode lbl = ''foreground'' then
           lbl\<lparr>points_foreground := points_foreground lbl @ [pos]\<rparr>
         else if current_mode lbl = ''background'' then
           lbl\<lparr>points_background := points_background lbl @ [pos]\<rparr>
         else lbl)
      else if button = RightButton then remove_point pos lbl
      else lbl)"

section \<open>The slice viewer: percentile windowing\<close>

text \<open>
  A slice is a two-dimensional array of samples, a stack a three-dimensional one
  (depth, height, width). Samples and every intermediate value are exact rationals:
  the rounding of binary floating point is not modelled, only what the IEEE
  operations answer where a real number has no answer (division by zero).
\<close>

type_synonym slice2d = "rat list list"

type_synonym volume = "rat list list list"

datatype fl = Fin rat | PInf | NInf | NaN

text \<open>Exceptions by class; \<open>EnvError\<close> carries the text of one raised by the
  operating system or a file library.\<close>

datatype exn = TypeError | IndexError | ValueError | AttributeError | EnvError string

text \<open>
  \<open>np.percentile(a, q)\<close> with the default linear method: on the sorted, flattened
  array of \<open>n\<close> samples the virtual index is \<open>(n - 1) * q / 100\<close>, and the answer
  interpolates between the samples on either side of it.
\<close>

definition percentile :: "rat list \<Rightarrow> rat \<Rightarrow> rat" where
  "percentile a q =
     (let s = sort a;
          n = length a;
          virtual_index = of_nat (n - 1) * (q / 100);
          previous_index = nat \<lfloor>virtual_index\<rfloor>;
          next_index = min (previous_index + 1) (n - 1);
          gamma = virtual_index - of_int \<lfloor>virtual_index\<rfloor>
      in s ! previous_index + (s ! next_index - s ! previous_index) * gamma)"

text \<open>\<open>np.clip(v, lo, hi)\<close> is \<open>minimum(maximum(v, lo), hi)\<close>.\<close>

definition np_clip :: "rat \<Rightarrow> rat \<Rightarrow> rat \<Rightarrow> rat" where
  "np_clip v lo hi = min (max v lo) hi"

text \<open>Floating-point division and multiplication of the normalisation step. NumPy
  divides by zero without raising: \<open>0/0\<close> is NaN and \<open>x/0\<close> an infinity.\<close>

definition fl_div :: "rat \<Rightarrow> rat \<Rightarrow> fl" where
  "fl_div a b =
     (if b \<noteq> 0 then Fin (a / b)
      else if a = 0 then NaN
      else if 0 < a then PInf else NInf)"

fun fl_mul :: "fl \<Rightarrow> rat \<Rightarrow> fl" where
  "fl_mul (Fin a) c = Fin (a * c)"
| "fl_mul NaN c = NaN"
| "fl_mul PInf c = (if c = 0 then NaN else if 0 < c then PInf else NInf)"
| "fl_mul NInf c = (if c = 0 then NaN else if 0 < c then NInf else PInf)"

text \<open>\<open>astype(np.uint8)\<close>: truncation toward zero where the result fits a byte.\<close>

definition trunc_toward_zero :: "rat \<Rightarrow> int" where
  "trunc_toward_zero r = (if 0 \<le> r then \<lfloor>r\<rfloor> else \<lceil>r\<rceil>)"

fun astype_uint8 :: "fl \<Rightarrow> pixel" where
  "astype_uint8 (Fin r) =
     (if 0 \<le> trunc_toward_zero r \<and> trunc_toward_zero r \<le> 255
      then Px (word_of_int (trunc_toward_zero r)) else PxUndefined)"
| "astype_uint8 PInf = PxUndefined"
| "astype_uint8 NInf = PxUndefined"
| "astype_uint8 NaN = PxUndefined"

text \<open>
  Lines 174-176 of \<open>show_mrc_slice\<close>: the two percentiles, the clipping and the
  normalisation of one slice.
\<close>

definition normalized_image :: "slice2d \<Rightarrow> fl list list" where
  "normalized_image slice_data =
     (let p01 = percentile (concat slice_data) 1;
          p99 = percentile (concat slice_data) 99;
          clipped_image = map (map (\<lambda>v. np_clip v p01 p99)) slice_data
      in map (map (\<lambda>c. fl_mul (fl_div (c - p01) (p99 - p01)) 255)) clipped_image)"

text \<open>
  Lines 174-178: the raster handed to \<open>QImage\<close>. What \<open>np.percentile\<close> answers for an
  array with no sample at all depends on the NumPy release (NaN or an exception); it
  is an exception here, and no result below reads that branch.
\<close>

definition slice_raster :: "slice2d \<Rightarrow> exn + QImage" where
  "slice_raster slice_data =
     (if concat slice_data = [] then Inl IndexError
      else
        let normalized = normalized_image slice_data;
            height = length normalized;
            width = length (hd normalized)
        in Inr \<lparr>img_data = map (map astype_uint8) normalized,
                img_width = width, img_height = height, img_bytesPerLine = width\<rparr>)"

text \<open>\<open>a[i]\<close> on the first axis: a negative index counts from the end.\<close>

definition np_index :: "'a list \<Rightarrow> int \<Rightarrow> exn + 'a" where
  "np_index a i =
     (if 0 \<le> i \<and> i < int (length a) then Inr (a ! nat i)
      else if i < 0 \<and> - int (length a) \<le> i then Inr (a ! nat (int (length a) + i))
      else Inl IndexError)"

section \<open>Saving: the NumPy arrays and the path of the archive\<close>

text \<open>
  An array is its shape, its element type and its elements in row-major order. The
  arrays built by \<open>save_points\<close> hold pixel coordinates and labels, so the elements
  are integers whatever the element type.
\<close>

datatype dtype = Int64 | Float64

record ndarray =
  nd_shape :: "nat list"
  nd_dtype :: dtype
  nd_data :: "int list"

text \<open>
  \<open>np.array(rows)\<close> for a list of equally long integer rows. With no row at all the
  result is the one-dimensional empty array of shape \<open>(0,)\<close> and type float64; with
  \<open>M > 0\<close> rows of length \<open>n\<close> it has shape \<open>(M, n)\<close> and an integer type.
\<close>

fun np_array :: "int list list \<Rightarrow> ndarray" where
  "np_array [] = \<lparr>nd_shape = [0], nd_dtype = Float64, nd_data = []\<rparr>"
| "np_array (r # rs) =
     \<lparr>nd_shape = [length (r # rs), length r], nd_dtype = Int64, nd_data = concat (r # rs)\<rparr>"

text \<open>\<open>len(a)\<close> is the first entry of the shape.\<close>

definition np_len :: "ndarray \<Rightarrow> nat" where
  "np_len a = hd (nd_shape a)"

definition np_ones :: "nat \<Rightarrow> ndarray" where
  "np_ones n = \<lparr>nd_shape = [n], nd_dtype = Int64, nd_data = replicate n 1\<rparr>"

definition np_zeros :: "nat \<Rightarrow> ndarray" where
  "np_zeros n = \<lparr>nd_shape = [n], nd_dtype = Int64, nd_data = replicate n 0\<rparr>"

text \<open>\<open>np.atleast_2d\<close>: a one-dimensional array of length \<open>n\<close> becomes one row.\<close>

definition np_atleast_2d :: "ndarray \<Rightarrow> ndarray" where
  "np_atleast_2d a =
     (case nd_shape a of
        [] \<Rightarrow> a\<lparr>nd_shape := [1, 1]\<rparr>
      | [n] \<Rightarrow> a\<lparr>nd_shape := [1, n]\<rparr>
      | _ \<Rightarrow> a)"

definition promote :: "dtype \<Rightarrow> dtype \<Rightarrow> dtype" where
  "promote s t = (if s = Int64 \<and> t = Int64 then Int64 else Float64)"

text \<open>
  \<open>np.concatenate((a, b), axis=0)\<close>: the shapes must agree on every axis but the
  first, otherwise NumPy raises \<open>ValueError\<close>.
\<close>

definition np_concatenate :: "ndarray \<Rightarrow> ndarray \<Rightarrow> exn + ndarray" where
  "np_concatenate a b =
     (if nd_shape a = [] \<or> nd_shape b = [] \<or> tl (nd_shape a) \<noteq> tl (nd_shape b)
      then Inl ValueError
      else Inr \<lparr>nd_shape = (hd (nd_shape a) + hd (nd_shape b)) # tl (nd_shape a),
                nd_dtype = promote (nd_dtype a) (nd_dtype b),
                nd_data = nd_data a @ nd_data b\<rparr>)"

text \<open>\<open>np.vstack((a, b))\<close> and, for one-dimensional arrays, \<open>np.hstack((a, b))\<close>.\<close>

definition np_vstack :: "ndarray \<Rightarrow> ndarray \<Rightarrow> exn + ndarray" where
  "np_vstack a b = np_concatenate (np_atleast_2d a) (np_atleast_2d b)"

definition np_hstack :: "ndarray \<Rightarrow> ndarray \<Rightarrow> exn + ndarray" where
  "np_hstack a b = np_concatenate a b"

text \<open>The three named fields of the archive written by \<open>np.savez\<close>.\<close>

record npz =
  npz_filename :: string
  npz_points :: ndarray
  npz_labels :: ndarray

text \<open>\<open>os.path.basename\<close>, \<open>os.path.splitext\<close> and \<open>os.path.join\<close> (POSIX), and
  \<open>str.lower\<close> on ASCII letters.\<close>

definition basename :: "string \<Rightarrow> string" where
  "basename p = rev (takeWhile (\<lambda>c. c \<noteq> CHR ''/'') (rev p))"

definition splitext :: "string \<Rightarrow> string \<times> string" where
  "splitext p =
     (let name = basename p;
          ext = rev (takeWhile (\<lambda>c. c \<noteq> CHR ''.'') (rev name));
          stem = take (length name - length ext - 1) name
      in if length ext < length name \<and> \<not> list_all (\<lambda>c. c = CHR ''.'') stem
         then (take (length p - length ext - 1) p, CHR ''.'' # ext)
         else (p, []))"

definition path_join :: "string \<Rightarrow> string \<Rightarrow> string" where
  "path_join a b =
     (if b \<noteq> [] \<and> hd b = CHR ''/'' then b
      else if a = [] \<or> last a = CHR ''/'' then a @ b
      else a @ ''/'' @ b)"

definition lower_char :: "char \<Rightarrow> char" where
  "lower_char c =
     (let n = (of_char c :: nat) in if 65 \<le> n \<and> n \<le> 90 then char_of (n + 32) else c)"

definition lower :: "string \<Rightarrow> string" where
  "lower s = map lower_char s"

section \<open>The main window: class \<open>MainWindow\<close>\<close>

text \<open>
  \<open>QSpinBox\<close>: its range and value. \<open>setMaximum\<close> lowers the minimum when the new
  maximum is below it and then bounds the value to the range; the spin box emits
  \<open>valueChanged\<close> when that changes the value.
\<close>

record QSpinBox =
  sp_minimum :: int
  sp_maximum :: int
  sp_value :: int

definition spin_bound :: "QSpinBox \<Rightarrow> int \<Rightarrow> int" where
  "spin_bound sp v =
     (let v1 = (if v < sp_minimum sp then sp_minimum sp else v)
      in if sp_maximum sp < v1 then sp_maximum sp else v1)"

definition spin_setMaximum :: "int \<Rightarrow> QSpinBox \<Rightarrow> QSpinBox" where
  "spin_setMaximum m sp =
     (let sp1 = sp\<lparr>sp_minimum := (if sp_minimum sp < m then sp_minimum sp else m),
                   sp_maximum := m\<rparr>
      in sp1\<lparr>sp_value := spin_bound sp1 (sp_value sp1)\<rparr>)"

definition spin_setMinimum :: "int \<Rightarrow> QSpinBox \<Rightarrow> QSpinBox" where
  "spin_setMinimum m sp =
     (let sp1 = sp\<lparr>sp_minimum := m,
                   sp_maximum := (if m < sp_maximum sp then sp_maximum sp else m)\<rparr>
      in sp1\<lparr>sp_value := spin_bound sp1 (sp_value sp1)\<rparr>)"

definition spin_setValue :: "int \<Rightarrow> QSpinBox \<Rightarrow> QSpinBox" where
  "spin_setValue v sp = sp\<lparr>sp_value := spin_bound sp v\<rparr>"

text \<open>\<open>QSpinBox()\<close>: range 0 to 99, value 0.\<close>

definition QSpinBox_init :: QSpinBox where
  "QSpinBox_init = \<lparr>sp_minimum = 0, sp_maximum = 99, sp_value = 0\<rparr>"

text \<open>A modal \<open>QMessageBox\<close>: its title, its text, and for \<open>critical\<close> the exception
  whose text ends the message.\<close>

datatype notice = Information string string | Critical string string exn

text \<open>
  The attributes of the window, \<open>slice_selector\<close> being \<open>None\<close> while the object has
  no such attribute. The last three fields are not attributes: they record what the
  window did to its surroundings, the modal notices shown, the archives written, and
  the exceptions that left a slot uncaught. PyQt does not hand such an exception back
  to the code that emitted the signal; it reports it (and, by default, ends the
  process).
\<close>

record MainWindow =
  image_label :: ImageLabel
  mrc_data :: "volume option"
  mrc_filename :: string
  current_slice :: int
  total_slices :: int
  slice_selector :: "QSpinBox option"
  window_size :: QSize
  toolbar_height :: int
  notices :: "notice list"
  archives :: "(string \<times> npz) list"
  unhandled :: "exn list"

text \<open>\<open>MainWindow.__init__\<close> (lines 74-94); the toolbar's height hint is Qt's.\<close>

definition MainWindow_init :: "int \<Rightarrow> MainWindow" where
  "MainWindow_init th =
     \<lparr>image_label = ImageLabel_init\<lparr>current_mode := ''foreground''\<rparr>,
      mrc_data = None, mrc_filename = [], current_slice = 0, total_slices = 0,
      slice_selector = None,
      window_size = \<lparr>sz_width = 1000, sz_height = 800\<rparr>, toolbar_height = th,
      notices = [], archives = [], unhandled = []\<rparr>"

text \<open>\<open>get_max_image_size\<close> (lines 242-248).\<close>

definition get_max_image_size :: "MainWindow \<Rightarrow> QSize" where
  "get_max_image_size w =
     \<lparr>sz_width = sz_width (window_size w) - 50,
      sz_height = sz_height (window_size w) - toolbar_height w - 50\<rparr>"

text \<open>
  A method either returns or raises, and leaves the window in some state either way:
  its result is the exception, if any, with the state. \<open>show_mrc_slice\<close>
  (lines 172-184) can only raise before it changes anything; indexing \<open>None\<close> raises
  \<open>TypeError\<close>.
\<close>

definition show_mrc_slice :: "int \<Rightarrow> MainWindow \<Rightarrow> exn option \<times> MainWindow" where
  "show_mrc_slice slice_index w =
     (case mrc_data w of
        None \<Rightarrow> (Some TypeError, w)
      | Some vol \<Rightarrow>
         (case np_index vol slice_index of
            Inl e \<Rightarrow> (Some e, w)
          | Inr slice_data \<Rightarrow>
             (case slice_raster slice_data of
                Inl e \<Rightarrow> (Some e, w)
              | Inr img \<Rightarrow>
                 (None,
                  w\<lparr>image_label :=
                      set_mrc_image (PixmapFromImage img) (Some (get_max_image_size w))
                        (image_label w)\<rparr>))))"

text \<open>\<open>slice_changed\<close> (lines 197-199).\<close>

definition slice_changed :: "int \<Rightarrow> MainWindow \<Rightarrow> exn option \<times> MainWindow" where
  "slice_changed v w = show_mrc_slice v (w\<lparr>current_slice := v\<rparr>)"

text \<open>A slot run by Qt: an exception it raises goes to \<open>unhandled\<close>.\<close>

definition slot :: "exn option \<times> MainWindow \<Rightarrow> MainWindow" where
  "slot r =
     (case r of
        (None, w) \<Rightarrow> w
      | (Some e, w) \<Rightarrow> w\<lparr>unhandled := unhandled w @ [e]\<rparr>)"

text \<open>
  \<open>create_slice_selector\<close> (lines 186-195). When the selector exists only its maximum
  is set; if that lowers its value, \<open>valueChanged\<close> runs \<open>slice_changed\<close> with the new
  value. A new selector is connected after its value is set, so nothing runs.
\<close>

definition create_slice_selector :: "MainWindow \<Rightarrow> MainWindow" where
  "create_slice_selector w =
     (case slice_selector w of
        Some sp \<Rightarrow>
          (let sp1 = spin_setMaximum (total_slices w) sp;
               w1 = w\<lparr>slice_selector := Some sp1\<rparr>
           in if sp_value sp1 \<noteq> sp_value sp then slot (slice_changed (sp_value sp1) w1)
              else w1)
      | None \<Rightarrow>
          w\<lparr>slice_selector :=
              Some (spin_setValue (current_slice w)
                     (spin_setMaximum (total_slices w)
                       (spin_setMinimum 0 QSpinBox_init)))\<rparr>)"

text \<open>
  What \<open>mrcfile.open(filename, permissive=True)\<close> and \<open>mrc.data\<close> give: an exception,
  or the data block, which permissive parsing leaves \<open>None\<close> when it cannot be read.
  Only three-dimensional data is modelled.
\<close>

datatype mrc_open = OpenRaises exn | OpenData "volume option"

definition notify_open_failed :: "exn \<Rightarrow> MainWindow \<Rightarrow> MainWindow" where
  "notify_open_failed e w =
     w\<lparr>notices := notices w @ [Critical ''Error'' ''Failed to open MRC file:'' e]\<rparr>"

text \<open>\<open>open_mrc_file\<close> (lines 159-170): everything is inside the \<open>try\<close>.\<close>

definition open_mrc_file :: "string \<Rightarrow> mrc_open \<Rightarrow> MainWindow \<Rightarrow> exn option \<times> MainWindow" where
  "open_mrc_file filename res w =
     (case res of
        OpenRaises e \<Rightarrow> (None, notify_open_failed e w)
      | OpenData d \<Rightarrow>
         (let w1 = w\<lparr>mrc_data := d, mrc_filename := filename\<rparr> in
          case d of
            None \<Rightarrow> (None, notify_open_failed TypeError w1)
          | Some vol \<Rightarrow>
             (let w2 = w1\<lparr>current_slice := int (length vol) div 2,
                           total_slices := int (length vol) - 1\<rparr>
              in case show_mrc_slice (current_slice w2) w2 of
                   (Some e, w3) \<Rightarrow> (None, notify_open_failed e w3)
                 | (None, w3) \<Rightarrow> (None, create_slice_selector w3))))"

text \<open>
  \<open>open_image\<close> (lines 138-157); \<open>filename\<close> is what the file dialog returned, empty
  when it was cancelled. \<open>QToolBar\<close> has no method \<open>removeWidget\<close>, so with a slice
  selector present line 156 raises \<open>AttributeError\<close> and line 157 is never reached.
\<close>

definition open_image :: "string \<Rightarrow> mrc_open \<Rightarrow> MainWindow \<Rightarrow> exn option \<times> MainWindow" where
  "open_image filename res w =
     (if filename \<noteq> [] then
        (let ext = lower (snd (splitext filename)) in
         if ext = ''.mrc'' then open_mrc_file filename res w
         else
           (let w1 = w\<lparr>mrc_data := None, mrc_filename := []\<rparr>;
                max_size = get_max_image_size w1;
                w2 = w1\<lparr>image_label := set_image filename (Some max_size) (image_label w1)\<rparr>
            in if slice_selector w2 \<noteq> None then (Some AttributeError, w2) else (None, w2)))
      else (None, w))"

text \<open>\<open>set_foreground_mode\<close>, \<open>set_background_mode\<close>, \<open>clear_points\<close> (lines 201-214).\<close>

definition set_foreground_mode :: "MainWindow \<Rightarrow> MainWindow" where
  "set_foreground_mode w = w\<lparr>image_label := (image_label w)\<lparr>current_mode := ''foreground''\<rparr>\<rparr>"

definition set_background_mode :: "MainWindow \<Rightarrow> MainWindow" where
  "set_background_mode w = w\<lparr>image_label := (image_label w)\<lparr>current_mode := ''background''\<rparr>\<rparr>"

definition clear_points :: "MainWindow \<Rightarrow> MainWindow" where
  "clear_points w =
     w\<lparr>image_label := (image_label w)\<lparr>points_foreground := [], points_background := []\<rparr>\<rparr>"

text \<open>Lines 232-235 of \<open>save_points\<close>: where the archive of a source file goes.\<close>

definition save_path :: "string \<Rightarrow> string" where
  "save_path filename =
     (let base0 = fst (splitext (basename filename));
          base_filename = (if base0 = [] then ''image'' else base0)
      in path_join ''input_points'' (base_filename @ ''_points.npz''))"

text \<open>
  \<open>save_points\<close> (lines 216-240). The file system answers through three arguments:
  whether \<open>input_points\<close> exists, and what \<open>os.makedirs\<close> and \<open>np.savez\<close> raise, if
  anything. Only \<open>np.savez\<close> is inside the \<open>try\<close>.
\<close>

definition save_points ::
  "bool \<Rightarrow> exn option \<Rightarrow> exn option \<Rightarrow> MainWindow \<Rightarrow> exn option \<times> MainWindow" where
  "save_points dir_exists makedirs_raises savez_raises w =
     (case (if dir_exists then None else makedirs_raises) of
        Some e \<Rightarrow> (Some e, w)
      | None \<Rightarrow>
         (let points_fg = np_array (map (\<lambda>p. [px p, py p]) (points_foreground (image_label w)));
              points_bg = np_array (map (\<lambda>p. [px p, py p]) (points_background (image_label w)))
          in case np_vstack points_fg points_bg of
               Inl e \<Rightarrow> (Some e, w)
             | Inr all_points \<Rightarrow>
                (case np_hstack (np_ones (np_len points_fg)) (np_zeros (np_len points_bg)) of
                   Inl e \<Rightarrow> (Some e, w)
                 | Inr labels \<Rightarrow>
                    (let data_dict = \<lparr>npz_filename = mrc_filename w,
                                      npz_points = all_points, npz_labels = labels\<rparr>;
                         path = save_path (npz_filename data_dict)
                     in case savez_raises of
                          None \<Rightarrow>
                            (None,
                             w\<lparr>archives := archives w @ [(path, data_dict)],
                               notices := notices w @
                                 [Information ''Saved'' (''Points saved to '' @ path)]\<rparr>)
                        | Some e \<Rightarrow>
                            (None,
                             w\<lparr>notices := notices w @
                                 [Critical ''Error'' ''Failed to save points:'' e]\<rparr>)))))"

section \<open>User actions\<close>

text \<open>
  Each user action reaches one slot. An action carries what the surroundings answer
  during it: the file chosen and what opening it gives, or the file system's answers
  to a save. The spin box only emits values of its range that differ from its value.
  Resizing the window changes what \<open>self.size()\<close> answers afterwards.
\<close>

datatype event =
    MousePressed MouseButton QPoint
  | OpenTriggered string mrc_open
  | ForegroundTriggered
  | BackgroundTriggered
  | ClearTriggered
  | SaveTriggered bool "exn option" "exn option"
  | SliceSelected int
  | WindowResized QSize

fun dispatch :: "event \<Rightarrow> MainWindow \<Rightarrow> MainWindow" where
  "dispatch (MousePressed b pos) w = w\<lparr>image_label := mousePressEvent b pos (image_label w)\<rparr>"
| "dispatch (OpenTriggered filename res) w = slot (open_image filename res w)"
| "dispatch ForegroundTriggered w = set_foreground_mode w"
| "dispatch BackgroundTriggered w = set_background_mode w"
| "dispatch ClearTriggered w = clear_points w"
| "dispatch (SaveTriggered ex mk sv) w = slot (save_points ex mk sv w)"
| "dispatch (SliceSelected v) w =
     (case slice_selector w of
        None \<Rightarrow> w
      | Some sp \<Rightarrow>
          if sp_minimum sp \<le> v \<and> v \<le> sp_maximum sp \<and> v \<noteq> sp_value sp
          then slot (slice_changed v (w\<lparr>slice_selector := Some (sp\<lparr>sp_value := v\<rparr>)\<rparr>))
          else w)"
| "dispatch (WindowResized s) w = w\<lparr>window_size := s\<rparr>"

text \<open>A session: the actions in order, from the state the constructor leaves.\<close>

definition run :: "event list \<Rightarrow> MainWindow \<Rightarrow> MainWindow" where
  "run es w = fold dispatch es w"

text \<open>The two toggles of the annotation mode, and a window with no stored point.\<close>

definition mode_event :: "event \<Rightarrow> bool" where
  "mode_event e = (e = ForegroundTriggered \<or> e = BackgroundTriggered)"

definition no_points :: "MainWindow \<Rightarrow> bool" where
  "no_points w =
     (points_foreground (image_label w) = [] \<and> points_background (image_label w) = [])"

section \<open>The specification's reading of the raster\<close>




section \<open>Removing a point\<close>








section \<open>Clicks and the loaded raster\<close>



section \<open>What showing a slice changes\<close>

lemma show_mrc_slice_raises: "show_mrc_slice i w = (Some e, w') \<Longrightarrow> w' = w"
  by (auto simp: show_mrc_slice_def split: option.splits sum.splits)

lemma show_mrc_slice_returns:
  "show_mrc_slice i w = (None, w') \<Longrightarrow>
     \<exists>img. w' = w\<lparr>image_label :=
        set_mrc_image (PixmapFromImage img) (Some (get_max_image_size w)) (image_label w)\<rparr>"
  by (auto simp: show_mrc_slice_def split: option.splits sum.splits)

lemma show_mrc_slice_in_range:
  assumes "mrc_data w = Some vol" "0 \<le> i" "i < int (length vol)" "concat (vol ! nat i) \<noteq> []"
  shows "\<exists>img. slice_raster (vol ! nat i) = Inr img \<and>
     show_mrc_slice i w =
       (None, w\<lparr>image_label :=
          set_mrc_image (PixmapFromImage img) (Some (get_max_image_size w)) (image_label w)\<rparr>)"
  using assms by (simp add: show_mrc_slice_def np_index_def slice_raster_def Let_def)

lemma slice_changed_in_range:
  assumes "mrc_data w = Some vol" "0 \<le> i" "i < int (length vol)" "concat (vol ! nat i) \<noteq> []"
  shows "\<exists>img. slice_raster (vol ! nat i) = Inr img \<and>
     slice_changed i w =
       (None, w\<lparr>current_slice := i,
                image_label :=
                  set_mrc_image (PixmapFromImage img) (Some (get_max_image_size w)) (image_label w)\<rparr>)"
proof -
  have md: "mrc_data (w\<lparr>current_slice := i\<rparr>) = Some vol" using assms(1) by simp
  from show_mrc_slice_in_range[OF md assms(2,3,4)] show ?thesis
    by (auto simp: slice_changed_def get_max_image_size_def)
qed

lemma set_mrc_image_points:
  "points_foreground (set_mrc_image p ms lbl) = [] \<and> points_background (set_mrc_image p ms lbl) = []"
  by (simp add: set_mrc_image_def Let_def)

lemma set_image_points:
  "points_foreground (set_image p ms lbl) = [] \<and> points_background (set_image p ms lbl) = []"
  by (simp add: set_image_def Let_def)

lemma show_mrc_slice_no_points:
  "no_points w \<Longrightarrow> no_points (snd (show_mrc_slice i w))"
  by (auto simp: no_points_def show_mrc_slice_def set_mrc_image_points
      split: option.splits sum.splits)

lemma slot_no_points: "no_points (snd r) \<Longrightarrow> no_points (slot r)"
  by (cases r) (auto simp: slot_def no_points_def split: option.splits)

lemma create_slice_selector_no_points:
  assumes "no_points w"
  shows "no_points (create_slice_selector w)"
proof (cases "slice_selector w")
  case None
  with assms show ?thesis by (simp add: create_slice_selector_def no_points_def)
next
  case (Some sp)
  let ?sp1 = "spin_setMaximum (total_slices w) sp"
  let ?w1 = "w\<lparr>slice_selector := Some ?sp1\<rparr>"
  have n1: "no_points (?w1\<lparr>current_slice := sp_value ?sp1\<rparr>)"
    using assms by (simp add: no_points_def)
  have "no_points (slot (slice_changed (sp_value ?sp1) ?w1))"
    unfolding slice_changed_def
    by (rule slot_no_points, rule show_mrc_slice_no_points, rule n1)
  moreover have "no_points ?w1" using assms by (simp add: no_points_def)
  ultimately show ?thesis using Some by (simp add: create_slice_selector_def Let_def)
qed

lemma open_mrc_file_loaded:
  assumes "vol \<noteq> []" "list_all (\<lambda>s. concat s \<noteq> []) vol"
  shows "\<exists>img. open_mrc_file f (OpenData (Some vol)) w =
     (None, create_slice_selector
        (w\<lparr>mrc_data := Some vol, mrc_filename := f,
           current_slice := int (length vol) div 2, total_slices := int (length vol) - 1,
           image_label := set_mrc_image (PixmapFromImage img)
              (Some (get_max_image_size w)) (image_label w)\<rparr>))"
proof -
  let ?w2 = "w\<lparr>mrc_data := Some vol, mrc_filename := f,
                current_slice := int (length vol) div 2, total_slices := int (length vol) - 1\<rparr>"
  let ?i = "int (length vol) div 2"
  have len: "0 < length vol" using assms(1) by simp
  have i0: "0 \<le> ?i" by simp
  have i1: "?i < int (length vol)" using len by linarith
  have "nat ?i < length vol" using i1 by simp
  then have ne: "concat (vol ! nat ?i) \<noteq> []"
    using assms(2) by (simp add: list_all_length)
  have md: "mrc_data ?w2 = Some vol" by simp
  from show_mrc_slice_in_range[OF md i0 i1 ne]
  obtain img where "show_mrc_slice ?i ?w2 =
       (None, ?w2\<lparr>image_label :=
          set_mrc_image (PixmapFromImage img) (Some (get_max_image_size ?w2)) (image_label ?w2)\<rparr>)"
    by blast
  then show ?thesis
    by (auto simp: open_mrc_file_def Let_def get_max_image_size_def intro!: exI[of _ img])
qed

section \<open>The annotation mode\<close>

lemma set_mrc_image_mode: "current_mode (set_mrc_image p ms lbl) = current_mode lbl"
  by (simp add: set_mrc_image_def Let_def)

lemma set_image_mode: "current_mode (set_image p ms lbl) = current_mode lbl"
  by (simp add: set_image_def Let_def)

lemma show_mrc_slice_mode:
  "current_mode (image_label (snd (show_mrc_slice i w))) = current_mode (image_label w)"
  by (auto simp: show_mrc_slice_def set_mrc_image_mode split: option.splits sum.splits)

lemma slot_mode: "current_mode (image_label (slot r)) = current_mode (image_label (snd r))"
  by (cases r) (auto simp: slot_def split: option.splits)

lemma slice_changed_mode:
  "current_mode (image_label (snd (slice_changed v w))) = current_mode (image_label w)"
  by (simp add: slice_changed_def show_mrc_slice_mode)

lemma create_slice_selector_mode:
  "current_mode (image_label (create_slice_selector w)) = current_mode (image_label w)"
  by (simp add: create_slice_selector_def Let_def slot_mode slice_changed_mode split: option.splits)

lemma open_mrc_file_mode:
  "current_mode (image_label (snd (open_mrc_file f res w))) = current_mode (image_label w)"
proof (cases res)
  case (OpenRaises e)
  then show ?thesis by (simp add: open_mrc_file_def notify_open_failed_def)
next
  case (OpenData d)
  show ?thesis
  proof (cases d)
    case None
    with OpenData show ?thesis by (simp add: open_mrc_file_def notify_open_failed_def)
  next
    case (Some vol)
    let ?w2 = "w\<lparr>mrc_data := Some vol, mrc_filename := f,
                  current_slice := int (length vol) div 2, total_slices := int (length vol) - 1\<rparr>"
    obtain x w3 where r: "show_mrc_slice (int (length vol) div 2) ?w2 = (x, w3)"
      by (cases "show_mrc_slice (int (length vol) div 2) ?w2")
    have m: "current_mode (image_label w3) = current_mode (image_label w)"
      using show_mrc_slice_mode[of "int (length vol) div 2" ?w2] r by simp
    from OpenData Some r m show ?thesis
      by (cases x) (simp_all add: open_mrc_file_def Let_def notify_open_failed_def
          create_slice_selector_mode)
  qed
qed

lemma open_image_mode:
  "current_mode (image_label (snd (open_image f res w))) = current_mode (image_label w)"
  by (simp add: open_image_def Let_def open_mrc_file_mode set_image_mode)

lemma save_points_state:
  "image_label (snd (save_points ex mk sv w)) = image_label w"
  by (simp add: save_points_def Let_def split: option.splits sum.splits)

lemma remove_point_mode: "current_mode (remove_point pos lbl) = current_mode lbl"
  by (simp add: remove_point_def Let_def split: option.splits)

lemma mousePressEvent_mode: "current_mode (mousePressEvent b pos lbl) = current_mode lbl"
  by (simp add: mousePressEvent_def remove_point_mode)

lemma dispatch_mode:
  "\<not> mode_event e \<Longrightarrow>
     current_mode (image_label (dispatch e w)) = current_mode (image_label w)"
proof (cases e)
  case (SliceSelected v)
  then show ?thesis
    by (simp add: slot_mode slice_changed_mode split: option.splits)
qed (simp_all add: mode_event_def mousePressEvent_mode slot_mode open_image_mode
      save_points_state clear_points_def)

lemma run_mode:
  "list_all (\<lambda>e. \<not> mode_event e) es \<Longrightarrow>
     current_mode (image_label (run es w)) = current_mode (image_label w)"
  unfolding run_def by (induction es arbitrary: w) (simp_all add: dispatch_mode)

text \<open>
  Claim C10. The constructor leaves the mode at \<open>foreground\<close>, and no action other
  than the two mode toggles changes it. So after any actions with no toggle among
  them, a left click appends its position to the foreground list and leaves the
  background list as it was.
\<close>

theorem initial_mode_is_foreground:
  assumes "list_all (\<lambda>e. \<not> mode_event e) es"
  shows "current_mode (image_label (run es (MainWindow_init th))) = ''foreground''
    \<and> points_foreground
         (image_label (dispatch (MousePressed LeftButton pos) (run es (MainWindow_init th))))
        = points_foreground (image_label (run es (MainWindow_init th))) @ [pos]
    \<and> points_background
         (image_label (dispatch (MousePressed LeftButton pos) (run es (MainWindow_init th))))
        = points_background (image_label (run es (MainWindow_init th)))"
proof -
  have "current_mode (image_label (run es (MainWindow_init th)))
          = current_mode (image_label (MainWindow_init th))"
    using assms by (rule run_mode)
  then have m: "current_mode (image_label (run es (MainWindow_init th))) = ''foreground''"
    by (simp add: MainWindow_init_def ImageLabel_init_def)
  then show ?thesis by (simp add: mousePressEvent_def)
qed

text \<open>Claim C10 at a concrete session: clicks, a clear and a slice selection, then a
  left click at \<open>(3,4)\<close>.\<close>

theorem initial_mode_is_foreground_witness:
  "points_foreground
     (image_label
        (dispatch (MousePressed LeftButton \<lparr>px = 3, py = 4\<rparr>)
           (run [MousePressed LeftButton \<lparr>px = 1, py = 1\<rparr>, ClearTriggered,
                 SliceSelected 3, MousePressed RightButton \<lparr>px = 0, py = 0\<rparr>]
              (MainWindow_init 30))))
     = [\<lparr>px = 3, py = 4\<rparr>]"
  using initial_mode_is_foreground
          [of "[MousePressed LeftButton \<lparr>px = 1, py = 1\<rparr>, ClearTriggered,
                 SliceSelected 3, MousePressed RightButton \<lparr>px = 0, py = 0\<rparr>]"
              30 "\<lparr>px = 3, py = 4\<rparr>"]
  by (simp add: mode_event_def run_def MainWindow_init_def ImageLabel_init_def
      mousePressEvent_def clear_points_def remove_point_def)

section \<open>Loading resets the point lists\<close>

text \<open>
  Claim C6. \<open>set_image\<close> and \<open>set_mrc_image\<close> leave both point lists empty whatever
  they held. So does the Open action: for a flat image (any non-empty file name whose
  extension is not \<open>.mrc\<close>), and for a stack that loads, that is one with at least one
  slice and no slice without samples.
\<close>

theorem loading_resets_both_lists:
  "points_foreground (set_image path ms lbl) = []
   \<and> points_background (set_image path ms lbl) = []
   \<and> points_foreground (set_mrc_image pm ms lbl) = []
   \<and> points_background (set_mrc_image pm ms lbl) = []
   \<and> (filename \<noteq> [] \<and> lower (snd (splitext filename)) \<noteq> ''.mrc'' \<longrightarrow>
        points_foreground (image_label (dispatch (OpenTriggered filename res) w)) = []
      \<and> points_background (image_label (dispatch (OpenTriggered filename res) w)) = [])
   \<and> (filename \<noteq> [] \<and> lower (snd (splitext filename)) = ''.mrc''
        \<and> vol \<noteq> [] \<and> list_all (\<lambda>s. concat s \<noteq> []) vol \<longrightarrow>
        points_foreground
          (image_label (dispatch (OpenTriggered filename (OpenData (Some vol))) w)) = []
      \<and> points_background
          (image_label (dispatch (OpenTriggered filename (OpenData (Some vol))) w)) = []
      \<and> mrc_data (dispatch (OpenTriggered filename (OpenData (Some vol))) w) = Some vol
      \<and> notices (dispatch (OpenTriggered filename (OpenData (Some vol))) w) = notices w)"
proof (intro conjI impI)
  assume a: "filename \<noteq> [] \<and> lower (snd (splitext filename)) \<noteq> ''.mrc''"
  then show "points_foreground (image_label (dispatch (OpenTriggered filename res) w)) = []"
    by (simp add: open_image_def Let_def slot_def set_image_points)
  from a show "points_background (image_label (dispatch (OpenTriggered filename res) w)) = []"
    by (simp add: open_image_def Let_def slot_def set_image_points)
next
  assume a: "filename \<noteq> [] \<and> lower (snd (splitext filename)) = ''.mrc''
        \<and> vol \<noteq> [] \<and> list_all (\<lambda>s. concat s \<noteq> []) vol"
  then have v: "vol \<noteq> []" "list_all (\<lambda>s. concat s \<noteq> []) vol" by simp_all
  from open_mrc_file_loaded[OF v, of filename w] obtain img where
    o: "open_mrc_file filename (OpenData (Some vol)) w =
     (None, create_slice_selector
        (w\<lparr>mrc_data := Some vol, mrc_filename := filename,
           current_slice := int (length vol) div 2, total_slices := int (length vol) - 1,
           image_label := set_mrc_image (PixmapFromImage img)
              (Some (get_max_image_size w)) (image_label w)\<rparr>))" (is "_ = (None, create_slice_selector ?w3)")
    by blast
  have d: "dispatch (OpenTriggered filename (OpenData (Some vol))) w = create_slice_selector ?w3"
    using a o by (simp add: open_image_def Let_def slot_def)
  have "no_points ?w3" by (simp add: no_points_def set_mrc_image_points)
  then have np: "no_points (create_slice_selector ?w3)"
    by (rule create_slice_selector_no_points)
  from np d show "points_foreground
          (image_label (dispatch (OpenTriggered filename (OpenData (Some vol))) w)) = []"
    by (simp add: no_points_def)
  from np d show "points_background
          (image_label (dispatch (OpenTriggered filename (OpenData (Some vol))) w)) = []"
    by (simp add: no_points_def)
  have fr: "\<And>i u. mrc_data (snd (show_mrc_slice i u)) = mrc_data u
            \<and> notices (snd (show_mrc_slice i u)) = notices u"
    by (auto simp: show_mrc_slice_def split: option.splits sum.splits)
  have sl: "\<And>r. mrc_data (slot r) = mrc_data (snd r) \<and> notices (slot r) = notices (snd r)"
    by (auto simp: slot_def split: prod.splits option.splits)
  have cs: "mrc_data (create_slice_selector ?w3) = mrc_data ?w3
            \<and> notices (create_slice_selector ?w3) = notices ?w3"
    by (simp add: create_slice_selector_def Let_def sl slice_changed_def fr split: option.splits)
  from cs d show "mrc_data (dispatch (OpenTriggered filename (OpenData (Some vol))) w) = Some vol"
    by simp
  from cs d show "notices (dispatch (OpenTriggered filename (OpenData (Some vol))) w) = notices w"
    by simp
qed (simp_all add: set_image_points set_mrc_image_points)

text \<open>Claim C6 at a window holding one foreground point: opening \<open>a.png\<close> and
  opening a two-slice stack both empty the list.\<close>

theorem loading_resets_both_lists_witness:
  "points_foreground
     (image_label (dispatch (MousePressed LeftButton \<lparr>px = 1, py = 1\<rparr>) (MainWindow_init 30)))
     = [\<lparr>px = 1, py = 1\<rparr>]
   \<and> points_foreground
       (image_label (dispatch (OpenTriggered ''a.png'' (OpenRaises TypeError))
          (dispatch (MousePressed LeftButton \<lparr>px = 1, py = 1\<rparr>) (MainWindow_init 30)))) = []
   \<and> points_foreground
       (image_label (dispatch (OpenTriggered ''s.mrc'' (OpenData (Some [[[0, 1]], [[2, 3]]])))
          (dispatch (MousePressed LeftButton \<lparr>px = 1, py = 1\<rparr>) (MainWindow_init 30)))) = []"
  using loading_resets_both_lists
          [where filename = "''a.png''" and res = "OpenRaises TypeError"
             and w = "dispatch (MousePressed LeftButton \<lparr>px = 1, py = 1\<rparr>) (MainWindow_init 30)"]
        loading_resets_both_lists
          [where filename = "''s.mrc''" and vol = "[[[0, 1]], [[2, 3]]]"
             and w = "dispatch (MousePressed LeftButton \<lparr>px = 1, py = 1\<rparr>) (MainWindow_init 30)"]
  by (simp add: splitext_def basename_def lower_def lower_char_def MainWindow_init_def
      ImageLabel_init_def mousePressEvent_def)

section \<open>Selecting a slice resets the point lists too\<close>




section \<open>The raster of a slice\<close>







lemma percentile_flat:
  assumes "xs \<noteq> []" "\<forall>x\<in>set xs. x = v" "0 \<le> q" "q \<le> 100"
  shows "percentile xs q = v"
proof -
  let ?n = "length xs"
  let ?vi = "of_nat (?n - 1) * (q / 100) :: rat"
  have all: "\<And>k. k < ?n \<Longrightarrow> sort xs ! k = v"
  proof -
    fix k assume "k < ?n"
    then have "sort xs ! k \<in> set (sort xs)" by (intro nth_mem) simp
    then show "sort xs ! k = v" using assms(2) by simp
  qed
  have n: "0 < ?n" using assms(1) by simp
  have "q / 100 \<le> 1" using assms(4) by simp
  then have "of_nat (?n - 1) * (q / 100) \<le> (of_nat (?n - 1) :: rat) * 1"
    by (intro mult_left_mono) simp_all
  then have "?vi \<le> of_nat (?n - 1)" by simp
  then have "\<lfloor>?vi\<rfloor> \<le> int (?n - 1)" by (simp add: floor_le_iff)
  then have a: "nat \<lfloor>?vi\<rfloor> < ?n" using n by linarith
  have "min (nat \<lfloor>?vi\<rfloor> + 1) (?n - 1) \<le> ?n - 1" by (rule min.cobounded2)
  then have b: "min (nat \<lfloor>?vi\<rfloor> + 1) (?n - 1) < ?n" using n by linarith
  show ?thesis using all[OF a] all[OF b] by (simp add: percentile_def Let_def)
qed

lemma flat_slice_all_nan:
  assumes "concat slice_data \<noteq> []" "\<forall>x\<in>set (concat slice_data). x = v"
    and "i < length slice_data" "j < length (slice_data ! i)"
  shows "normalized_image slice_data ! i ! j = NaN"
proof -
  have p1: "percentile (concat slice_data) 1 = v"
    using assms(1,2) by (intro percentile_flat) simp_all
  have p99: "percentile (concat slice_data) 99 = v"
    using assms(1,2) by (intro percentile_flat) simp_all
  have "slice_data ! i \<in> set slice_data" using assms(3) by simp
  moreover have "slice_data ! i ! j \<in> set (slice_data ! i)" using assms(4) by simp
  ultimately have "slice_data ! i ! j \<in> set (concat slice_data)" by auto
  then have "slice_data ! i ! j = v" using assms(2) by blast
  then show ?thesis
    using assms(3,4) by (simp add: normalized_image_def Let_def p1 p99 np_clip_def fl_div_def)
qed


section \<open>Opening a stack and the current slice\<close>

text \<open>
  With no slice selector yet, opening a stack of depth \<open>D\<close> leaves the current slice
  at \<open>D div 2\<close>. With a selector left by an earlier stack whose value exceeds
  \<open>D - 1\<close>, setting its maximum lowers the value, \<open>slice_changed\<close> runs, and the
  current slice ends at \<open>D - 1\<close>.
\<close>

lemma show_mrc_slice_current_slice:
  "current_slice (snd (show_mrc_slice i w)) = current_slice w"
  by (auto simp: show_mrc_slice_def split: option.splits sum.splits)

lemma slot_current_slice: "current_slice (slot r) = current_slice (snd r)"
  by (cases r) (auto simp: slot_def split: option.splits)

lemma new_selector:
  assumes "0 \<le> m" "0 \<le> v" "v \<le> m"
  shows "spin_setValue v (spin_setMaximum m (spin_setMinimum 0 QSpinBox_init))
           = \<lparr>sp_minimum = 0, sp_maximum = m, sp_value = v\<rparr>"
proof -
  have a: "spin_setMinimum 0 QSpinBox_init = QSpinBox_init"
    by (simp add: spin_setMinimum_def QSpinBox_init_def spin_bound_def Let_def)
  have b: "spin_setMaximum m QSpinBox_init = \<lparr>sp_minimum = 0, sp_maximum = m, sp_value = 0\<rparr>"
    using assms(1) by (cases "m = 0") (simp_all add: spin_setMaximum_def QSpinBox_init_def spin_bound_def Let_def)
  show ?thesis
    using assms(2,3) by (simp add: a b spin_setValue_def spin_bound_def Let_def)
qed

lemma open_mrc_file_fresh:
  assumes "slice_selector w = None" "vol \<noteq> []" "list_all (\<lambda>s. concat s \<noteq> []) vol"
  shows "fst (open_mrc_file f (OpenData (Some vol)) w) = None
     \<and> current_slice (snd (open_mrc_file f (OpenData (Some vol)) w)) = int (length vol) div 2
     \<and> slice_selector (snd (open_mrc_file f (OpenData (Some vol)) w))
         = Some \<lparr>sp_minimum = 0, sp_maximum = int (length vol) - 1,
                 sp_value = int (length vol) div 2\<rparr>
     \<and> notices (snd (open_mrc_file f (OpenData (Some vol)) w)) = notices w
     \<and> unhandled (snd (open_mrc_file f (OpenData (Some vol)) w)) = unhandled w"
proof -
  have len: "0 < int (length vol)" using assms(2) by simp
  then have h: "int (length vol) div 2 \<le> int (length vol) - 1" by linarith
  from open_mrc_file_loaded[OF assms(2,3), of f w] obtain img where
    "open_mrc_file f (OpenData (Some vol)) w =
     (None, create_slice_selector
        (w\<lparr>mrc_data := Some vol, mrc_filename := f,
           current_slice := int (length vol) div 2, total_slices := int (length vol) - 1,
           image_label := set_mrc_image (PixmapFromImage img)
              (Some (get_max_image_size w)) (image_label w)\<rparr>))"
    by blast
  moreover have "spin_setValue (int (length vol) div 2)
             (spin_setMaximum (int (length vol) - 1) (spin_setMinimum 0 QSpinBox_init))
           = \<lparr>sp_minimum = 0, sp_maximum = int (length vol) - 1,
                sp_value = int (length vol) div 2\<rparr>"
    using len h by (intro new_selector) simp_all
  ultimately show ?thesis
    using assms(1) by (simp add: create_slice_selector_def)
qed

lemma open_mrc_file_stale_selector:
  assumes "slice_selector w = Some sp" "sp_minimum sp = 0"
    and "int (length vol) - 1 < sp_value sp"
    and "vol \<noteq> []" "list_all (\<lambda>s. concat s \<noteq> []) vol"
  shows "current_slice (snd (open_mrc_file f (OpenData (Some vol)) w)) = int (length vol) - 1"
proof -
  have len: "0 < int (length vol)" using assms(4) by simp
  from open_mrc_file_loaded[OF assms(4,5), of f w] obtain img where
    o: "open_mrc_file f (OpenData (Some vol)) w =
     (None, create_slice_selector
        (w\<lparr>mrc_data := Some vol, mrc_filename := f,
           current_slice := int (length vol) div 2, total_slices := int (length vol) - 1,
           image_label := set_mrc_image (PixmapFromImage img)
              (Some (get_max_image_size w)) (image_label w)\<rparr>))"
    by blast
  have v: "sp_value (spin_setMaximum (int (length vol) - 1) sp) = int (length vol) - 1"
    using assms(2,3) len by (simp add: spin_setMaximum_def spin_bound_def Let_def)
  have ne: "sp_value (spin_setMaximum (int (length vol) - 1) sp) \<noteq> sp_value sp"
    using v assms(3) by simp
  show ?thesis
    using o assms(1) ne v
    by (simp add: create_slice_selector_def Let_def slot_current_slice slice_changed_def
        show_mrc_slice_current_slice)
qed

text \<open>
  Claim C8 has every successful load leave the current slice at \<open>floor(D/2)\<close>. A
  first load of ten slices does leave it at 5. After slice 9 is selected there, a
  load of four slices succeeds (no notice, no exception) and leaves it at 3, not 2.
\<close>

theorem reload_with_stale_selector:
  "current_slice (run [OpenTriggered ''a.mrc'' (OpenData (Some (replicate 10 [[0, 1]])))]
      (MainWindow_init 30)) = 5
   \<and> current_slice (run [OpenTriggered ''a.mrc'' (OpenData (Some (replicate 10 [[0, 1]]))),
                         SliceSelected 9,
                         OpenTriggered ''b.mrc'' (OpenData (Some (replicate 4 [[0, 1]])))]
      (MainWindow_init 30)) = 3
   \<and> notices (run [OpenTriggered ''a.mrc'' (OpenData (Some (replicate 10 [[0, 1]]))),
                         SliceSelected 9,
                         OpenTriggered ''b.mrc'' (OpenData (Some (replicate 4 [[0, 1]])))]
      (MainWindow_init 30)) = []
   \<and> unhandled (run [OpenTriggered ''a.mrc'' (OpenData (Some (replicate 10 [[0, 1]]))),
                         SliceSelected 9,
                         OpenTriggered ''b.mrc'' (OpenData (Some (replicate 4 [[0, 1]])))]
      (MainWindow_init 30)) = []"
  by code_simp

section \<open>Saving\<close>

lemma np_array_coords:
  "ps \<noteq> [] \<Longrightarrow>
     np_array (map (\<lambda>p. [px p, py p]) ps)
       = \<lparr>nd_shape = [length ps, 2], nd_dtype = Int64,
          nd_data = concat (map (\<lambda>p. [px p, py p]) ps)\<rparr>"
  by (cases ps) simp_all

lemma save_points_both_nonempty:
  assumes "points_foreground (image_label w) \<noteq> []" "points_background (image_label w) \<noteq> []"
  shows "save_points True mk None w =
     (None,
      w\<lparr>archives := archives w @
          [(save_path (mrc_filename w),
            \<lparr>npz_filename = mrc_filename w,
             npz_points =
               \<lparr>nd_shape = [length (points_foreground (image_label w))
                             + length (points_background (image_label w)), 2],
                nd_dtype = Int64,
                nd_data = concat (map (\<lambda>p. [px p, py p])
                   (points_foreground (image_label w) @ points_background (image_label w)))\<rparr>,
             npz_labels =
               \<lparr>nd_shape = [length (points_foreground (image_label w))
                             + length (points_background (image_label w))],
                nd_dtype = Int64,
                nd_data = replicate (length (points_foreground (image_label w))) 1
                        @ replicate (length (points_background (image_label w))) 0\<rparr>\<rparr>)],
        notices := notices w @
          [Information ''Saved'' (''Points saved to '' @ save_path (mrc_filename w))]\<rparr>)"
  using assms
  by (simp add: save_points_def np_array_coords np_vstack_def np_hstack_def np_concatenate_def
      np_atleast_2d_def np_len_def np_ones_def np_zeros_def promote_def Let_def)

lemma savez_failure_is_noticed:
  assumes "points_foreground (image_label w) \<noteq> []" "points_background (image_label w) \<noteq> []"
  shows "save_points True mk (Some e) w =
     (None, w\<lparr>notices := notices w @ [Critical ''Error'' ''Failed to save points:'' e]\<rparr>)"
  using assms
  by (simp add: save_points_def np_array_coords np_vstack_def np_hstack_def np_concatenate_def
      np_atleast_2d_def np_len_def np_ones_def np_zeros_def promote_def Let_def)

text \<open>
  Claim C1 has every save write \<open>points\<close> of shape \<open>(M+K, 2)\<close>. With both lists
  non-empty it does (\<open>save_points_both_nonempty\<close>). With exactly one list empty,
  \<open>np.vstack\<close> raises \<open>ValueError\<close> outside the \<open>try\<close> and nothing is written; with
  both empty, the archive holds \<open>points\<close> of shape \<open>(2, 0)\<close>, not \<open>(0, 2)\<close>.
\<close>

theorem save_with_an_empty_list_fails:
  "save_points True None None
     ((MainWindow_init 30)\<lparr>image_label := ImageLabel_init\<lparr>points_background := [\<lparr>px = 3, py = 4\<rparr>]\<rparr>\<rparr>)
     = (Some ValueError,
        (MainWindow_init 30)\<lparr>image_label := ImageLabel_init\<lparr>points_background := [\<lparr>px = 3, py = 4\<rparr>]\<rparr>\<rparr>)
   \<and> save_points True None None
     ((MainWindow_init 30)\<lparr>image_label := ImageLabel_init\<lparr>points_foreground := [\<lparr>px = 3, py = 4\<rparr>]\<rparr>\<rparr>)
     = (Some ValueError,
        (MainWindow_init 30)\<lparr>image_label := ImageLabel_init\<lparr>points_foreground := [\<lparr>px = 3, py = 4\<rparr>]\<rparr>\<rparr>)
   \<and> archives (snd (save_points True None None (MainWindow_init 30)))
     = [(''input_points/image_points.npz'',
         \<lparr>npz_filename = [],
          npz_points = \<lparr>nd_shape = [2, 0], nd_dtype = Float64, nd_data = []\<rparr>,
          npz_labels = \<lparr>nd_shape = [0], nd_dtype = Int64, nd_data = []\<rparr>\<rparr>)]"
  by code_simp

text \<open>
  Claim C7 has every failure end in a modal notice. A failure of \<open>np.savez\<close> does
  (\<open>savez_failure_is_noticed\<close>). When \<open>input_points\<close> is missing and \<open>os.makedirs\<close>
  raises, the exception leaves \<open>save_points\<close> uncaught and no notice is shown.
\<close>

theorem save_failure_escapes_handler:
  "dispatch (SaveTriggered False (Some (EnvError ''Permission denied'')) None) (MainWindow_init 30)
     = (MainWindow_init 30)\<lparr>unhandled := [EnvError ''Permission denied'']\<rparr>
   \<and> notices (dispatch (SaveTriggered False (Some (EnvError ''Permission denied'')) None)
        (MainWindow_init 30)) = []"
  by (simp add: save_points_def slot_def MainWindow_init_def)

end
